theory Spec2Isabelle
  imports Main
begin

section \<open>The backend plugin supervisor of \<^verbatim>\<open>cura/BackendPlugin.py\<close>\<close>

text \<open>
  \<^verbatim>\<open>BackendPlugin\<close> owns one child process: it builds the launch command, spawns the
  process, remembers whether it believes the process to be running, and terminates it.
  The class is embedded as a record with one field per attribute and one function per
  method. The operating system, the logger and the message sink are outside the class:
  the outcome of each operating-system call is an argument of the method that makes the
  call, and what the method writes to the logger and to the message sink is collected in
  the state that the method returns.
\<close>

subsection \<open>Attributes\<close>

text \<open>
  The object returned by \<^verbatim>\<open>subprocess.Popen\<close> is opaque to the class; it is a number
  here. Such an object is always truthy, so \<^verbatim>\<open>not self._process\<close> holds exactly when
  the attribute is \<^verbatim>\<open>None\<close>.
\<close>

type_synonym handle = nat

text \<open>
  The attributes assigned by \<^verbatim>\<open>__init__\<close>, without their leading underscores, and
  \<^verbatim>\<open>_plugin_id\<close>, which the class inherits from \<^verbatim>\<open>PluginObject\<close> and only reads.
\<close>

record BackendPlugin =
  port :: int
  plugin_address :: string
  plugin_command :: "string list option"
  process :: "handle option"
  is_running :: bool
  supported_slots :: "int list"
  plugin_id :: string

definition init :: "string \<Rightarrow> BackendPlugin" where
  "init pid =
     \<lparr>port = 0, plugin_address = ''127.0.0.1'', plugin_command = None, process = None,
      is_running = False, supported_slots = [], plugin_id = pid\<rparr>"

subsection \<open>Accessors\<close>

definition getSupportedSlots :: "BackendPlugin \<Rightarrow> int list" where
  "getSupportedSlots self = supported_slots self"

definition isRunning :: "BackendPlugin \<Rightarrow> bool" where
  "isRunning self = is_running self"

definition setPort :: "int \<Rightarrow> BackendPlugin \<Rightarrow> BackendPlugin" where
  "setPort p self = self\<lparr>port := p\<rparr>"

definition getPort :: "BackendPlugin \<Rightarrow> int" where
  "getPort self = port self"

definition getAddress :: "BackendPlugin \<Rightarrow> string" where
  "getAddress self = plugin_address self"

subsection \<open>Decimal rendering of integers\<close>

text \<open>Python's \<^verbatim>\<open>str\<close> on an \<^verbatim>\<open>int\<close>: decimal digits, a minus sign before a negative number.\<close>

definition digit_char :: "nat \<Rightarrow> char" where
  "digit_char d = ''0123456789'' ! d"

function str_nat :: "nat \<Rightarrow> string" where
  "str_nat n = (if n < 10 then [digit_char n] else str_nat (n div 10) @ [digit_char (n mod 10)])"
  by pat_completeness auto
termination
  by (relation "measure (\<lambda>n. n)") auto

declare str_nat.simps [simp del]

definition str_int :: "int \<Rightarrow> string" where
  "str_int i = (if i < 0 then CHR ''-'' # str_nat (nat (- i)) else str_nat (nat i))"

subsection \<open>The command validator\<close>

text \<open>
  \<^verbatim>\<open>if not self._plugin_command or "--port" in self._plugin_command:\<close>
  \<^verbatim>\<open>    return self._plugin_command or []\<close>
  \<^verbatim>\<open>return self._plugin_command + ["--address", self.getAddress(), "--port", str(self.__port)]\<close>

  \<^verbatim>\<open>not c\<close> holds for \<^verbatim>\<open>None\<close> and for the empty list, and \<^verbatim>\<open>c or []\<close> is \<^verbatim>\<open>[]\<close> for both;
  \<^verbatim>\<open>in\<close> compares whole tokens.
\<close>

definition validatePluginCommand :: "BackendPlugin \<Rightarrow> string list" where
  "validatePluginCommand self =
     (case plugin_command self of
        None \<Rightarrow> []
      | Some c \<Rightarrow>
          if c = [] \<or> ''--port'' \<in> set c then (if c = [] then [] else c)
          else c @ [''--address'', getAddress self, ''--port'', str_int (port self)])"

text \<open>
  The validator as the specification words it, for comparison: no template gives the
  empty sequence, a template with the token \<^verbatim>\<open>--port\<close> is returned unchanged, any other
  template gets the four tokens appended.
\<close>

definition validator_as_specified :: "string list option \<Rightarrow> string \<Rightarrow> int \<Rightarrow> string list" where
  "validator_as_specified template address p =
     (case template of
        None \<Rightarrow> []
      | Some c \<Rightarrow>
          if ''--port'' \<in> set c then c
          else c @ [''--address'', address, ''--port'', str_int p])"

subsection \<open>The environment: exceptions, operating-system calls, logger, message sink\<close>

text \<open>
  The exception classes that the handlers of \<^verbatim>\<open>start\<close> and \<^verbatim>\<open>stop\<close> tell apart.
  \<^verbatim>\<open>PermissionError\<close>, \<^verbatim>\<open>FileNotFoundError\<close> and \<^verbatim>\<open>BlockingIOError\<close> are subclasses of
  \<^verbatim>\<open>OSError\<close>; \<open>OSError\<close> stands for an \<^verbatim>\<open>OSError\<close> of none of these three classes, and
  \<open>Exception_other\<close> for an exception that is neither an \<^verbatim>\<open>OSError\<close> nor an
  \<^verbatim>\<open>AttributeError\<close> (the \<^verbatim>\<open>ValueError\<close> that \<^verbatim>\<open>subprocess.Popen\<close> raises for an argument with
  an embedded NUL character is one). \<^verbatim>\<open>AttributeError\<close> is not a subclass of \<^verbatim>\<open>OSError\<close>.
\<close>

datatype py_exn =
  PermissionError | FileNotFoundError | BlockingIOError | OSError | AttributeError | Exception_other

text \<open>
  What becomes of the statement
  \<^verbatim>\<open>self._process = subprocess.Popen(self._validatePluginCommand(), stdin = None,\<close>
  \<^verbatim>\<open>                                 creationflags = subprocess.CREATE_NO_WINDOW)\<close>
  Python evaluates the arguments before it makes the call. The module \<^verbatim>\<open>subprocess\<close> has
  the attribute \<^verbatim>\<open>CREATE_NO_WINDOW\<close> on Windows only, and the source reads it without a
  platform check: on every other platform the last argument raises \<^verbatim>\<open>AttributeError\<close> and
  \<^verbatim>\<open>Popen\<close> is not called. That is the outcome \<open>Creationflags_unavailable\<close>, and the only
  outcome there. Where the attribute exists, \<^verbatim>\<open>Popen\<close> is called and returns a process or
  raises.
\<close>

datatype spawn_outcome = Creationflags_unavailable | Spawned handle | Spawn_raises py_exn

datatype terminate_outcome = Terminated | Terminate_raises py_exn

datatype wait_outcome = Exited int | Wait_raises py_exn

text \<open>The calls made on the operating system, in the order they are made.\<close>

datatype os_call = Popen "string list" | Terminate handle | Kill handle | Wait handle

text \<open>
  A log entry has the type letter given to \<^verbatim>\<open>Logger.log\<close> (\<^verbatim>\<open>Logger.info\<close> logs with
  \<^verbatim>\<open>"i"\<close>), a flag telling whether the entry carries the traceback of the exception being
  handled (\<^verbatim>\<open>Logger.logException\<close>), and the text. A text is a list of fragments: a
  command interpolated into an f-string is kept as the list of its tokens, since
  rendering it is Python's \<^verbatim>\<open>repr\<close>.
\<close>

datatype log_type = Log_d | Log_i | Log_w | Log_e | Log_c

datatype fragment = Lit string | Repr_list "string list"

record log_entry =
  level :: log_type
  traceback :: bool
  message :: "fragment list"

datatype message_type = POSITIVE | NEUTRAL | WARNING | ERROR

text \<open>
  A message shown to the user. The text is the string handed to the translation
  catalogue (\<^verbatim>\<open>catalog.i18nc\<close>); translating it is the catalogue's concern.
\<close>

record Message =
  msg_text :: string
  title :: string
  message_type :: message_type

record world =
  plugin :: BackendPlugin
  logged :: "log_entry list"
  shown :: "Message list"
  os_calls :: "os_call list"

definition new_world :: "string \<Rightarrow> world" where
  "new_world pid = \<lparr>plugin = init pid, logged = [], shown = [], os_calls = []\<rparr>"

definition Logger_log :: "log_type \<Rightarrow> fragment list \<Rightarrow> world \<Rightarrow> world" where
  "Logger_log t m w = w\<lparr>logged := logged w @ [\<lparr>level = t, traceback = False, message = m\<rparr>]\<rparr>"

definition Logger_logException :: "log_type \<Rightarrow> fragment list \<Rightarrow> world \<Rightarrow> world" where
  "Logger_logException t m w = w\<lparr>logged := logged w @ [\<lparr>level = t, traceback = True, message = m\<rparr>]\<rparr>"

definition Logger_info :: "fragment list \<Rightarrow> world \<Rightarrow> world" where
  "Logger_info m w = Logger_log Log_i m w"

text \<open>
  \<^verbatim>\<open>Message(message, title=self.catalog.i18nc("@info:title", "EnginePlugin"),\<close>
  \<^verbatim>\<open>        message_type = message_type).show()\<close>
\<close>

definition showMessage :: "string \<Rightarrow> message_type \<Rightarrow> world \<Rightarrow> world" where
  "showMessage m t w =
     w\<lparr>shown := shown w @ [\<lparr>msg_text = m, title = ''EnginePlugin'', message_type = t\<rparr>]\<rparr>"

subsection \<open>Starting the process\<close>

text \<open>
  \<^verbatim>\<open>start\<close> logs the command, evaluates the arguments of \<^verbatim>\<open>subprocess.Popen\<close>, calls it on
  the validated command and, when the call returns, stores the process and sets the flag,
  in this order. A call of \<^verbatim>\<open>Popen\<close> is recorded only when it is made: not when the
  evaluation of its arguments has raised. Each of the four handlers logs, shows a message
  and falls through to \<^verbatim>\<open>return False\<close>; the handlers are tried in the order of the source,
  so the one for \<^verbatim>\<open>OSError\<close> gets what the three before it left. An exception that no
  handler matches leaves the method: the result is \<open>Inl\<close> of it.
\<close>

definition start :: "spawn_outcome \<Rightarrow> world \<Rightarrow> (py_exn + bool) \<times> world" where
  "start outcome w =
     (let self = plugin w;
          w1 = Logger_info
                 [Lit (''Starting backend_plugin ['' @ plugin_id self @ ''] with command: ''),
                  Repr_list (validatePluginCommand self)] w;
          w2 = w1\<lparr>os_calls := os_calls w1 @ [Popen (validatePluginCommand self)]\<rparr>
      in case outcome of
           Creationflags_unavailable \<Rightarrow> (Inl AttributeError, w1)
         | Spawned h \<Rightarrow>
             (Inr True, w2\<lparr>plugin := self\<lparr>process := Some h, is_running := True\<rparr>\<rparr>)
         | Spawn_raises PermissionError \<Rightarrow>
             (Inr False,
              showMessage
                (''Couldn't start EnginePlugin: '' @ plugin_id self
                   @ ''\<newline>No permission to execute process.'') ERROR
                (Logger_log Log_e
                   [Lit (''Couldn't start EnginePlugin: '' @ plugin_id self
                      @ '' No permission to execute process.'')] w2))
         | Spawn_raises FileNotFoundError \<Rightarrow>
             (Inr False,
              showMessage
                (''Unable to find local EnginePlugin server executable for: '' @ plugin_id self)
                ERROR
                (Logger_logException Log_e
                   [Lit (''Unable to find local EnginePlugin server executable for: ''
                      @ plugin_id self)] w2))
         | Spawn_raises BlockingIOError \<Rightarrow>
             (Inr False,
              showMessage
                (''Couldn't start EnginePlugin: '' @ plugin_id self
                   @ ''\<newline>Resource is temporarily unavailable'') ERROR
                (Logger_logException Log_e
                   [Lit (''Couldn't start EnginePlugin: '' @ plugin_id self
                      @ '' Resource is temporarily unavailable'')] w2))
         | Spawn_raises OSError \<Rightarrow>
             (Inr False,
              showMessage
                (''Couldn't start EnginePlugin: '' @ plugin_id self
                   @ ''\<newline>Operating system is blocking it (antivirus?)'') ERROR
                (Logger_logException Log_e
                   [Lit (''Couldn't start EnginePlugin '' @ plugin_id self
                      @ '' Operating system is blocking it (antivirus?)'')] w2))
         | Spawn_raises AttributeError \<Rightarrow> (Inl AttributeError, w2)
         | Spawn_raises Exception_other \<Rightarrow> (Inl Exception_other, w2))"

subsection \<open>Stopping the process\<close>

text \<open>
  The handler of \<^verbatim>\<open>stop\<close> guards both \<^verbatim>\<open>terminate()\<close> and \<^verbatim>\<open>wait()\<close>; it matches
  \<^verbatim>\<open>PermissionError\<close> only.
\<close>

definition stop_except :: "py_exn \<Rightarrow> world \<Rightarrow> (py_exn + bool) \<times> world" where
  "stop_except e w =
     (if e = PermissionError then
        (Inr False,
         showMessage
           (''Unable to kill running EnginePlugin: '' @ plugin_id (plugin w)
              @ ''\<newline>Access is denied.'') ERROR
           (Logger_log Log_e
              [Lit (''Unable to kill running EnginePlugin: '' @ plugin_id (plugin w)
                 @ '' Access is denied.'')] w))
      else (Inl e, w))"

text \<open>
  Without a process \<^verbatim>\<open>stop\<close> clears the flag and returns. With one it calls
  \<^verbatim>\<open>terminate()\<close>, then \<^verbatim>\<open>wait()\<close>, clears the flag and logs the return code. The
  attribute \<^verbatim>\<open>_process\<close> is not assigned on any path.
\<close>

definition stop :: "terminate_outcome \<Rightarrow> wait_outcome \<Rightarrow> world \<Rightarrow> (py_exn + bool) \<times> world" where
  "stop t x w =
     (let self = plugin w in
      case process self of
        None \<Rightarrow> (Inr True, w\<lparr>plugin := self\<lparr>is_running := False\<rparr>\<rparr>)
      | Some h \<Rightarrow>
          (let w1 = w\<lparr>os_calls := os_calls w @ [Terminate h]\<rparr> in
           case t of
             Terminate_raises e \<Rightarrow> stop_except e w1
           | Terminated \<Rightarrow>
               (let w2 = w1\<lparr>os_calls := os_calls w1 @ [Wait h]\<rparr> in
                case x of
                  Wait_raises e \<Rightarrow> stop_except e w2
                | Exited return_code \<Rightarrow>
                    (Inr True,
                     Logger_log Log_d
                       [Lit (''EnginePlugin: '' @ plugin_id self
                          @ '' was killed. Received return code '' @ str_int return_code)]
                       (w2\<lparr>plugin := self\<lparr>is_running := False\<rparr>\<rparr>)))))"

subsection \<open>Sequences of calls\<close>

text \<open>
  A call of a method of the class, with the outcomes of the operating-system calls it
  makes. A method that raises still leaves the object in some state, from which the
  caller may go on.
\<close>

datatype call =
    SetPort int
  | Start spawn_outcome
  | Stop terminate_outcome wait_outcome
  | GetPort
  | GetAddress
  | IsRunning
  | GetSupportedSlots

fun step :: "call \<Rightarrow> world \<Rightarrow> world" where
  "step (SetPort p) w = w\<lparr>plugin := setPort p (plugin w)\<rparr>"
| "step (Start outcome) w = snd (start outcome w)"
| "step (Stop t x) w = snd (stop t x w)"
| "step GetPort w = w"
| "step GetAddress w = w"
| "step IsRunning w = w"
| "step GetSupportedSlots w = w"

fun run :: "call list \<Rightarrow> world \<Rightarrow> world" where
  "run [] w = w"
| "run (c # cs) w = run cs (step c w)"

definition running_has_handle :: "BackendPlugin \<Rightarrow> bool" where
  "running_has_handle self = (is_running self \<longrightarrow> process self \<noteq> None)"

section \<open>Properties\<close>

subsection \<open>Rendering\<close>

lemma str_nat_digit: "n < 10 \<Longrightarrow> str_nat n = [digit_char n]"
  by (simp add: str_nat.simps)

lemma str_nat_step: "10 \<le> n \<Longrightarrow> str_nat n = str_nat (n div 10) @ [digit_char (n mod 10)]"
  by (subst str_nat.simps) simp

lemma str_int_9000: "str_int 9000 = ''9000''"
  by (simp add: str_int_def str_nat_step str_nat_digit digit_char_def)

lemma str_int_0: "str_int 0 = ''0''"
  by (simp add: str_int_def str_nat_digit digit_char_def)

subsection \<open>What the methods do to the state\<close>

lemmas env_defs = Logger_log_def Logger_logException_def Logger_info_def showMessage_def

lemma stop_true_no_message:
  "fst (stop t x w) = Inr True \<Longrightarrow>
     shown (snd (stop t x w)) = shown w \<and> \<not> is_running (plugin (snd (stop t x w)))
     \<and> process (plugin (snd (stop t x w))) = process (plugin w)"
  by (auto simp: stop_def stop_except_def Let_def env_defs
      split: option.splits terminate_outcome.splits wait_outcome.splits if_splits)

lemma stop_again:
  "fst (stop Terminated (Exited return_code) w) = Inr True"
  by (simp add: stop_def Let_def split: option.split)

lemma step_running_has_handle:
  "running_has_handle (plugin w) \<Longrightarrow> running_has_handle (plugin (step c w))"
proof (cases c)
  case (Start outcome)
  assume "running_has_handle (plugin w)"
  then show ?thesis
    using Start
    by (auto simp: running_has_handle_def start_def Let_def env_defs
        split: spawn_outcome.splits py_exn.splits)
next
  case (Stop t x)
  assume "running_has_handle (plugin w)"
  then show ?thesis
    using Stop
    by (auto simp: running_has_handle_def stop_def stop_except_def Let_def env_defs
        split: option.splits terminate_outcome.splits wait_outcome.splits)
qed (simp_all add: running_has_handle_def setPort_def)

lemma run_running_has_handle:
  "running_has_handle (plugin w) \<Longrightarrow> running_has_handle (plugin (run cs w))"
  by (induction cs arbitrary: w) (simp_all add: step_running_has_handle)

lemma start_port: "port (plugin (snd (start outcome w))) = port (plugin w)"
  by (simp add: start_def Let_def env_defs split: spawn_outcome.split py_exn.split)

lemma stop_plugin:
  "plugin (snd (stop t x w)) = plugin w
   \<or> plugin (snd (stop t x w)) = (plugin w)\<lparr>is_running := False\<rparr>"
  by (simp add: stop_def stop_except_def Let_def env_defs
      split: option.split terminate_outcome.split wait_outcome.split)

lemma stop_port: "port (plugin (snd (stop t x w))) = port (plugin w)"
  using stop_plugin [of t x w] by auto

lemma stop_process: "process (plugin (snd (stop t x w))) = process (plugin w)"
  using stop_plugin [of t x w] by auto

lemma step_process:
  "process (plugin (step c w)) =
     (case c of Start (Spawned h) \<Rightarrow> Some h | _ \<Rightarrow> process (plugin w))"
  by (cases c)
    (simp_all add: stop_process setPort_def start_def Let_def env_defs
      split: spawn_outcome.split py_exn.split)

lemma run_process_None:
  "(process (plugin (run cs w)) = None) =
     (process (plugin w) = None \<and> (\<forall>h. Start (Spawned h) \<notin> set cs))"
proof (induction cs arbitrary: w)
  case Nil
  show ?case by simp
next
  case (Cons c cs)
  show ?case
  proof (cases "\<exists>h. c = Start (Spawned h)")
    case True
    then obtain h where c: "c = Start (Spawned h)" ..
    have "process (plugin (step c w)) = Some h"
      unfolding step_process by (simp add: c)
    then show ?thesis
      unfolding run.simps Cons.IH by (auto simp: c)
  next
    case False
    then have "process (plugin (step c w)) = process (plugin w)"
      unfolding step_process by (auto split: call.split spawn_outcome.split)
    with False show ?thesis
      unfolding run.simps Cons.IH by auto
  qed
qed

subsection \<open>The command validator\<close>

text \<open>
  C2, as amended. The validator depends on the template, the address and the port only.
  It returns the empty sequence when no template is configured and also when the
  configured template is the empty list; it returns a non-empty template that contains
  the token \<^verbatim>\<open>--port\<close> unchanged; to any other non-empty template it appends the four
  tokens \<^verbatim>\<open>--address\<close>, the address, \<^verbatim>\<open>--port\<close>, the port in decimal, in that order. The
  template \<^verbatim>\<open>["exe"]\<close> with address 127.0.0.1 and port 9000 gives
  \<^verbatim>\<open>["exe", "--address", "127.0.0.1", "--port", "9000"]\<close>.
\<close>

theorem validatePluginCommand_cases:
  "validatePluginCommand self =
     (case plugin_command self of
        None \<Rightarrow> []
      | Some c \<Rightarrow>
          if c = [] then []
          else if ''--port'' \<in> set c then c
          else c @ [''--address'', plugin_address self, ''--port'', str_int (port self)])
   \<and> validatePluginCommand
        ((init pid)\<lparr>plugin_command := Some [''exe''], plugin_address := ''127.0.0.1'', port := 9000\<rparr>)
      = [''exe'', ''--address'', ''127.0.0.1'', ''--port'', ''9000'']"
  by (simp add: validatePluginCommand_def getAddress_def str_int_9000 split: option.split)

text \<open>
  C2 as stated fails for a template that is configured and empty: the specification's
  third case appends the four tokens to it, the code returns the empty sequence.
\<close>

theorem validatePluginCommand_empty_template_counterexample:
  "validatePluginCommand ((init ''plugin'')\<lparr>plugin_command := Some []\<rparr>) = []
   \<and> validator_as_specified (Some []) ''127.0.0.1'' 0 = [''--address'', ''127.0.0.1'', ''--port'', ''0'']"
  by (simp add: validatePluginCommand_def validator_as_specified_def init_def str_int_0)

subsection \<open>Starting\<close>

text \<open>
  C1. Whatever the state, when the spawn in \<^verbatim>\<open>start\<close> raises \<^verbatim>\<open>PermissionError\<close>,
  \<^verbatim>\<open>FileNotFoundError\<close>, \<^verbatim>\<open>BlockingIOError\<close> or another \<^verbatim>\<open>OSError\<close>, then \<^verbatim>\<open>start\<close> returns
  \<^verbatim>\<open>False\<close>, the flag \<^verbatim>\<open>_is_running\<close> keeps its value, exactly one message is shown, of type
  \<^verbatim>\<open>ERROR\<close> and with the plugin identifier in its text, and the log gets, after the line
  that announces the command, one entry of type \<^verbatim>\<open>"e"\<close>; that entry carries a traceback
  for every kind but the permission denial, whose message is the one about the missing
  permission to execute.
\<close>

theorem start_failure_reported:
  assumes "e \<in> {PermissionError, FileNotFoundError, BlockingIOError, OSError}"
  shows "(let r = start (Spawn_raises e) w in
          fst r = Inr False
        \<and> is_running (plugin (snd r)) = is_running (plugin w)
        \<and> (\<exists>n before after.
              shown (snd r) = shown w @ [n] \<and> message_type n = ERROR
            \<and> msg_text n = before @ plugin_id (plugin w) @ after)
        \<and> (\<exists>i l.
              logged (snd r) = logged w @ [i, l] \<and> level i = Log_i \<and> \<not> traceback i
            \<and> level l = Log_e \<and> traceback l = (e \<noteq> PermissionError))
        \<and> (e = PermissionError \<longrightarrow>
              shown (snd r) = shown w @
                [\<lparr>msg_text = ''Couldn't start EnginePlugin: '' @ plugin_id (plugin w)
                     @ ''\<newline>No permission to execute process.'',
                  title = ''EnginePlugin'', message_type = ERROR\<rparr>]))"
proof -
  from assms consider "e = PermissionError" | "e = FileNotFoundError"
    | "e = BlockingIOError" | "e = OSError"
    by auto
  then show ?thesis
  proof cases
    case 1
    then show ?thesis
      apply (simp add: start_def Let_def env_defs)
      apply (rule exI [of _ "''Couldn't start EnginePlugin: ''"])
      apply (rule exI [of _ "''\<newline>No permission to execute process.''"])
      apply simp
      done
  next
    case 2
    then show ?thesis
      apply (simp add: start_def Let_def env_defs)
      apply (rule exI [of _ "''Unable to find local EnginePlugin server executable for: ''"])
      apply (rule exI [of _ "[]"])
      apply simp
      done
  next
    case 3
    then show ?thesis
      apply (simp add: start_def Let_def env_defs)
      apply (rule exI [of _ "''Couldn't start EnginePlugin: ''"])
      apply (rule exI [of _ "''\<newline>Resource is temporarily unavailable''"])
      apply simp
      done
  next
    case 4
    then show ?thesis
      apply (simp add: start_def Let_def env_defs)
      apply (rule exI [of _ "''Couldn't start EnginePlugin: ''"])
      apply (rule exI [of _ "''\<newline>Operating system is blocking it (antivirus?)''"])
      apply simp
      done
  qed
qed

theorem start_failure_reported_witness:
  "PermissionError \<in> {PermissionError, FileNotFoundError, BlockingIOError, OSError}
   \<and> fst (start (Spawn_raises PermissionError) (new_world ''CuraEngineGradualFlow'')) = Inr False
   \<and> \<not> isRunning (plugin (snd (start (Spawn_raises PermissionError) (new_world ''CuraEngineGradualFlow''))))
   \<and> shown (snd (start (Spawn_raises PermissionError) (new_world ''CuraEngineGradualFlow''))) =
        [\<lparr>msg_text = ''Couldn't start EnginePlugin: CuraEngineGradualFlow\<newline>No permission to execute process.'',
          title = ''EnginePlugin'', message_type = ERROR\<rparr>]
   \<and> map traceback (logged (snd (start (Spawn_raises PermissionError) (new_world ''CuraEngineGradualFlow''))))
        = [False, False]"
  using start_failure_reported [of PermissionError "new_world ''CuraEngineGradualFlow''"]
  by (simp add: Let_def new_world_def init_def isRunning_def start_def env_defs)

text \<open>
  C3. The claim is that \<^verbatim>\<open>start\<close> never raises, whatever its input, an empty or absent
  command template included; the docstring of \<^verbatim>\<open>start\<close> says the same (\<^verbatim>\<open>True\<close> if the
  process started, \<^verbatim>\<open>False\<close> otherwise). The code raises at two inputs. On a platform
  without \<^verbatim>\<open>subprocess.CREATE_NO_WINDOW\<close>, a new supervisor, whose template is absent and
  whose validated command is empty, raises \<^verbatim>\<open>AttributeError\<close> from \<^verbatim>\<open>start\<close> without having
  called \<^verbatim>\<open>Popen\<close>. On any platform, a supervisor whose template has a token with an
  embedded NUL character hands it to \<^verbatim>\<open>Popen\<close>, and the exception raised there, which is not
  an \<^verbatim>\<open>OSError\<close>, leaves \<^verbatim>\<open>start\<close>. In both cases the supervisor is left not running.
\<close>

theorem start_raises_at_failing_inputs:
  "validatePluginCommand (plugin (new_world ''plugin'')) = []
   \<and> fst (start Creationflags_unavailable (new_world ''plugin'')) = Inl AttributeError
   \<and> os_calls (snd (start Creationflags_unavailable (new_world ''plugin''))) = []
   \<and> \<not> isRunning (plugin (snd (start Creationflags_unavailable (new_world ''plugin''))))
   \<and> validatePluginCommand
       (plugin ((new_world ''plugin'')\<lparr>plugin := (init ''plugin'')\<lparr>plugin_command := Some [[CHR ''e'', CHR 0x00]]\<rparr>\<rparr>))
       = [[CHR ''e'', CHR 0x00], ''--address'', ''127.0.0.1'', ''--port'', ''0'']
   \<and> fst (start (Spawn_raises Exception_other)
        ((new_world ''plugin'')\<lparr>plugin := (init ''plugin'')\<lparr>plugin_command := Some [[CHR ''e'', CHR 0x00]]\<rparr>\<rparr>))
       = Inl Exception_other
   \<and> \<not> isRunning (plugin (snd (start (Spawn_raises Exception_other)
        ((new_world ''plugin'')\<lparr>plugin := (init ''plugin'')\<lparr>plugin_command := Some [[CHR ''e'', CHR 0x00]]\<rparr>\<rparr>))))"
  by (simp add: start_def Let_def validatePluginCommand_def getAddress_def isRunning_def
      new_world_def init_def str_int_0 env_defs)

subsection \<open>Stopping\<close>

text \<open>
  C4. When a process is held and both \<^verbatim>\<open>terminate()\<close> and \<^verbatim>\<open>wait()\<close> return, \<^verbatim>\<open>stop\<close> returns
  \<^verbatim>\<open>True\<close> and clears \<^verbatim>\<open>_is_running\<close>; the calls it makes on the process are \<^verbatim>\<open>terminate()\<close>
  followed by \<^verbatim>\<open>wait()\<close>, and no \<^verbatim>\<open>kill()\<close>; it logs one entry of type \<^verbatim>\<open>"d"\<close> with the
  plugin identifier and the return code that \<^verbatim>\<open>wait()\<close> gave, and shows no message.
\<close>

theorem stop_success:
  assumes "process (plugin w) = Some h"
  shows "(let r = stop Terminated (Exited return_code) w in
          fst r = Inr True
        \<and> \<not> is_running (plugin (snd r))
        \<and> os_calls (snd r) = os_calls w @ [Terminate h, Wait h]
        \<and> logged (snd r) = logged w @
             [\<lparr>level = Log_d, traceback = False,
               message = [Lit (''EnginePlugin: '' @ plugin_id (plugin w)
                 @ '' was killed. Received return code '' @ str_int return_code)]\<rparr>]
        \<and> shown (snd r) = shown w)"
  using assms by (simp add: stop_def Let_def env_defs)

theorem stop_success_witness:
  "process (plugin (run [Start (Spawned 4711)] (new_world ''plugin''))) = Some 4711
   \<and> is_running (plugin (run [Start (Spawned 4711)] (new_world ''plugin'')))
   \<and> fst (stop Terminated (Exited 0) (run [Start (Spawned 4711)] (new_world ''plugin''))) = Inr True
   \<and> \<not> is_running (plugin (snd (stop Terminated (Exited 0) (run [Start (Spawned 4711)] (new_world ''plugin'')))))
   \<and> os_calls (snd (stop Terminated (Exited 0) (run [Start (Spawned 4711)] (new_world ''plugin''))))
       = [Popen [], Terminate 4711, Wait 4711]
   \<and> last (logged (snd (stop Terminated (Exited 0) (run [Start (Spawned 4711)] (new_world ''plugin'')))))
       = \<lparr>level = Log_d, traceback = False,
          message = [Lit ''EnginePlugin: plugin was killed. Received return code 0'']\<rparr>"
  using stop_success [of "run [Start (Spawned 4711)] (new_world ''plugin'')" 4711 0]
  by (simp add: Let_def start_def new_world_def init_def validatePluginCommand_def env_defs str_int_0)

text \<open>
  C5. When a process is held and \<^verbatim>\<open>terminate()\<close> raises \<^verbatim>\<open>PermissionError\<close>, \<^verbatim>\<open>stop\<close> returns
  \<^verbatim>\<open>False\<close>, \<^verbatim>\<open>_is_running\<close> keeps the value it had, exactly one message is shown, which
  names the plugin, and one entry of type \<^verbatim>\<open>"e"\<close> is logged; \<^verbatim>\<open>wait()\<close> is not called.
\<close>

theorem stop_permission_denied:
  assumes "process (plugin w) = Some h"
  shows "(let r = stop (Terminate_raises PermissionError) x w in
          fst r = Inr False
        \<and> is_running (plugin (snd r)) = is_running (plugin w)
        \<and> shown (snd r) = shown w @
             [\<lparr>msg_text = ''Unable to kill running EnginePlugin: '' @ plugin_id (plugin w)
                  @ ''\<newline>Access is denied.'',
               title = ''EnginePlugin'', message_type = ERROR\<rparr>]
        \<and> logged (snd r) = logged w @
             [\<lparr>level = Log_e, traceback = False,
               message = [Lit (''Unable to kill running EnginePlugin: '' @ plugin_id (plugin w)
                 @ '' Access is denied.'')]\<rparr>]
        \<and> os_calls (snd r) = os_calls w @ [Terminate h])"
  using assms by (simp add: stop_def stop_except_def Let_def env_defs)

theorem stop_permission_denied_witness:
  "process (plugin (run [Start (Spawned 4711)] (new_world ''plugin''))) = Some 4711
   \<and> is_running (plugin (run [Start (Spawned 4711)] (new_world ''plugin'')))
   \<and> fst (stop (Terminate_raises PermissionError) (Exited 0)
        (run [Start (Spawned 4711)] (new_world ''plugin''))) = Inr False
   \<and> is_running (plugin (snd (stop (Terminate_raises PermissionError) (Exited 0)
        (run [Start (Spawned 4711)] (new_world ''plugin'')))))
   \<and> shown (snd (stop (Terminate_raises PermissionError) (Exited 0)
        (run [Start (Spawned 4711)] (new_world ''plugin''))))
       = [\<lparr>msg_text = ''Unable to kill running EnginePlugin: plugin\<newline>Access is denied.'',
           title = ''EnginePlugin'', message_type = ERROR\<rparr>]"
  using stop_permission_denied
    [of "run [Start (Spawned 4711)] (new_world ''plugin'')" 4711 "Exited 0"]
  by (simp add: Let_def start_def new_world_def init_def validatePluginCommand_def env_defs)

text \<open>
  C6. Without a process, \<^verbatim>\<open>stop\<close> clears \<^verbatim>\<open>_is_running\<close>, returns \<^verbatim>\<open>True\<close> and does nothing
  else, whatever the operating system would answer. After a \<^verbatim>\<open>stop\<close> that returned \<^verbatim>\<open>True\<close>,
  two further calls of \<^verbatim>\<open>stop\<close> return \<^verbatim>\<open>True\<close> as well, none of the three calls shows a
  message, and the supervisor is not running after either. The further calls find the
  process of the last start still stored and call \<^verbatim>\<open>terminate()\<close> and \<^verbatim>\<open>wait()\<close> on it
  again; the statement takes these calls to return, as they do for a process that has
  been waited for.
\<close>

theorem stop_idempotent:
  "(process (plugin w) = None \<longrightarrow>
      stop t x w = (Inr True, w\<lparr>plugin := (plugin w)\<lparr>is_running := False\<rparr>\<rparr>))
   \<and> (fst (stop t x w) = Inr True \<longrightarrow>
       (let r2 = stop Terminated (Exited rc2) (snd (stop t x w));
            r3 = stop Terminated (Exited rc3) (snd r2)
        in fst r2 = Inr True \<and> fst r3 = Inr True
         \<and> shown (snd (stop t x w)) = shown w
         \<and> shown (snd r2) = shown w \<and> shown (snd r3) = shown w
         \<and> \<not> is_running (plugin (snd r2)) \<and> \<not> is_running (plugin (snd r3))))"
proof (intro conjI impI)
  assume "process (plugin w) = None"
  then show "stop t x w = (Inr True, w\<lparr>plugin := (plugin w)\<lparr>is_running := False\<rparr>\<rparr>)"
    by (simp add: stop_def Let_def)
next
  assume first: "fst (stop t x w) = Inr True"
  define w1 where "w1 = snd (stop t x w)"
  define w2 where "w2 = snd (stop Terminated (Exited rc2) w1)"
  define w3 where "w3 = snd (stop Terminated (Exited rc3) w2)"
  have s1: "shown w1 = shown w"
    using stop_true_no_message [OF first] by (simp add: w1_def)
  have r2: "fst (stop Terminated (Exited rc2) w1) = Inr True"
    by (rule stop_again)
  have s2: "shown w2 = shown w1" "\<not> is_running (plugin w2)"
    using stop_true_no_message [OF r2] by (simp_all add: w2_def)
  have r3: "fst (stop Terminated (Exited rc3) w2) = Inr True"
    by (rule stop_again)
  have s3: "shown w3 = shown w2" "\<not> is_running (plugin w3)"
    using stop_true_no_message [OF r3] by (simp_all add: w3_def)
  show "(let r2 = stop Terminated (Exited rc2) (snd (stop t x w));
            r3 = stop Terminated (Exited rc3) (snd r2)
        in fst r2 = Inr True \<and> fst r3 = Inr True
         \<and> shown (snd (stop t x w)) = shown w
         \<and> shown (snd r2) = shown w \<and> shown (snd r3) = shown w
         \<and> \<not> is_running (plugin (snd r2)) \<and> \<not> is_running (plugin (snd r3)))"
    unfolding Let_def
    using s1 r2 s2 r3 s3 by (simp add: w1_def w2_def w3_def)
qed

theorem stop_idempotent_witness:
  "process (plugin (new_world ''plugin'')) = None
   \<and> stop Terminated (Exited 0) (new_world ''plugin'') = (Inr True, new_world ''plugin'')
   \<and> fst (stop Terminated (Exited 0) (run [Start (Spawned 4711)] (new_world ''plugin''))) = Inr True
   \<and> fst (stop Terminated (Exited 0)
        (run [Start (Spawned 4711), Stop Terminated (Exited 0)] (new_world ''plugin''))) = Inr True
   \<and> fst (stop Terminated (Exited 0)
        (run [Start (Spawned 4711), Stop Terminated (Exited 0), Stop Terminated (Exited 0)]
           (new_world ''plugin''))) = Inr True
   \<and> shown (run [Start (Spawned 4711), Stop Terminated (Exited 0), Stop Terminated (Exited 0),
        Stop Terminated (Exited 0)] (new_world ''plugin'')) = []"
  using stop_idempotent [of "new_world ''plugin''" Terminated "Exited 0" 0 0]
    stop_idempotent [of "run [Start (Spawned 4711)] (new_world ''plugin'')" Terminated "Exited 0" 0 0]
  by (simp add: Let_def start_def stop_def new_world_def init_def validatePluginCommand_def env_defs)

subsection \<open>Invariants over sequences of calls\<close>

text \<open>
  C7. A running supervisor holds a process: this holds after \<^verbatim>\<open>__init__\<close>, it holds after
  every sequence of calls of \<^verbatim>\<open>setPort\<close>, \<^verbatim>\<open>start\<close>, \<^verbatim>\<open>stop\<close> and the getters on a new
  supervisor, whatever the operating system answers, and every single call preserves it
  from any state.
\<close>

theorem running_has_handle_invariant:
  "running_has_handle (init pid)
   \<and> running_has_handle (plugin (run cs (new_world pid)))
   \<and> (running_has_handle (plugin w) \<longrightarrow> running_has_handle (plugin (step c w)))"
proof (intro conjI impI)
  show i: "running_has_handle (init pid)"
    by (simp add: running_has_handle_def init_def)
  then have "running_has_handle (plugin (new_world pid))"
    by (simp add: new_world_def)
  then show "running_has_handle (plugin (run cs (new_world pid)))"
    by (rule run_running_has_handle)
next
  assume "running_has_handle (plugin w)"
  then show "running_has_handle (plugin (step c w))"
    by (rule step_running_has_handle)
qed

theorem running_has_handle_invariant_witness:
  "is_running (plugin (run [SetPort 9000, Start (Spawned 4711), GetPort,
       Stop (Terminate_raises PermissionError) (Exited 0), Start (Spawn_raises OSError)]
       (new_world ''plugin'')))
   \<and> process (plugin (run [SetPort 9000, Start (Spawned 4711), GetPort,
       Stop (Terminate_raises PermissionError) (Exited 0), Start (Spawn_raises OSError)]
       (new_world ''plugin''))) \<noteq> None"
proof -
  have "is_running (plugin (run [SetPort 9000, Start (Spawned 4711), GetPort,
       Stop (Terminate_raises PermissionError) (Exited 0), Start (Spawn_raises OSError)]
       (new_world ''plugin'')))"
    by (simp add: start_def stop_def stop_except_def Let_def env_defs new_world_def init_def
        setPort_def)
  then show ?thesis
    using running_has_handle_invariant [of "''plugin''" "[SetPort 9000, Start (Spawned 4711), GetPort,
       Stop (Terminate_raises PermissionError) (Exited 0), Start (Spawn_raises OSError)]"]
    by (simp add: running_has_handle_def)
qed

text \<open>
  C8, as amended. \<^verbatim>\<open>start\<close>, \<^verbatim>\<open>stop\<close> and the getters never change the stored port;
  \<^verbatim>\<open>setPort\<close> stores its argument in every state, running or not, and leaves
  \<^verbatim>\<open>_is_running\<close> as it is.
\<close>

theorem port_changed_by_setPort_only:
  "port (plugin (step c w)) = (case c of SetPort p \<Rightarrow> p | _ \<Rightarrow> port (plugin w))
   \<and> is_running (plugin (step (SetPort p) w)) = is_running (plugin w)
   \<and> getPort (plugin (step (SetPort p) w)) = p"
  by (cases c) (simp_all add: start_port stop_port setPort_def getPort_def)

text \<open>
  C8 as stated fails: \<^verbatim>\<open>setPort\<close> has no guard, so a call between a successful \<^verbatim>\<open>start\<close>
  and the next \<^verbatim>\<open>stop\<close> replaces the port of a running supervisor.
\<close>

theorem port_renegotiated_counterexample:
  "is_running (plugin (run [SetPort 9000, Start (Spawned 4711)] (new_world ''plugin'')))
   \<and> getPort (plugin (run [SetPort 9000, Start (Spawned 4711)] (new_world ''plugin''))) = 9000
   \<and> is_running (plugin (run [SetPort 9000, Start (Spawned 4711), SetPort 9001] (new_world ''plugin'')))
   \<and> getPort (plugin (run [SetPort 9000, Start (Spawned 4711), SetPort 9001] (new_world ''plugin''))) = 9001"
  by (simp add: start_def Let_def env_defs new_world_def init_def setPort_def getPort_def)

text \<open>
  C9, as amended. A new supervisor holds no process, and it holds none exactly as long as
  no \<^verbatim>\<open>start\<close> has succeeded. \<^verbatim>\<open>stop\<close> never releases the process: after \<^verbatim>\<open>stop\<close>, whatever
  it returns, the supervisor holds what it held before.
\<close>

theorem handle_kept_after_stop:
  "process (init pid) = None
   \<and> process (plugin (snd (stop t x w))) = process (plugin w)
   \<and> ((process (plugin (run cs (new_world pid))) = None) = (\<forall>h. Start (Spawned h) \<notin> set cs))"
  by (simp add: stop_process run_process_None) (simp add: init_def new_world_def)

text \<open>
  C9 as stated fails: after a successful \<^verbatim>\<open>start\<close> and a successful \<^verbatim>\<open>stop\<close> the supervisor
  is not running and still holds the process.
\<close>

theorem handle_kept_after_stop_counterexample:
  "fst (stop Terminated (Exited 0) (run [Start (Spawned 4711)] (new_world ''plugin''))) = Inr True
   \<and> \<not> is_running (plugin (run [Start (Spawned 4711), Stop Terminated (Exited 0)] (new_world ''plugin'')))
   \<and> process (plugin (run [Start (Spawned 4711), Stop Terminated (Exited 0)] (new_world ''plugin'')))
       = Some 4711"
  by (simp add: start_def stop_def Let_def env_defs new_world_def init_def)

subsection \<open>A failed start\<close>

text \<open>
  C10. When the spawn raises, \<^verbatim>\<open>start\<close> leaves every attribute of the supervisor as it
  was: process, running flag, port, address, command template and supported slots. A
  running supervisor whose second \<^verbatim>\<open>start\<close> fails therefore stays running with the
  process it had.
\<close>

theorem failed_start_keeps_state:
  "plugin (snd (start (Spawn_raises e) w)) = plugin w
   \<and> process (plugin (snd (start (Spawn_raises e) w))) = process (plugin w)
   \<and> is_running (plugin (snd (start (Spawn_raises e) w))) = is_running (plugin w)
   \<and> port (plugin (snd (start (Spawn_raises e) w))) = port (plugin w)
   \<and> plugin_address (plugin (snd (start (Spawn_raises e) w))) = plugin_address (plugin w)
   \<and> plugin_command (plugin (snd (start (Spawn_raises e) w))) = plugin_command (plugin w)
   \<and> supported_slots (plugin (snd (start (Spawn_raises e) w))) = supported_slots (plugin w)"
proof -
  have "plugin (snd (start (Spawn_raises e) w)) = plugin w"
    by (cases e) (simp_all add: start_def Let_def env_defs)
  then show ?thesis by simp
qed

end
